theory Spec2Isabelle
  imports Complex_Main "HOL-Library.Word"
begin

section \<open>The grain pass (generateGrain)\<close>

text \<open>
  \<^verbatim>\<open>generateGrain\<close> reads the canvas into an \<^verbatim>\<open>ImageData\<close>, whose \<^verbatim>\<open>data\<close> is a
  \<^verbatim>\<open>Uint8ClampedArray\<close> of RGBA bytes, adds noise to it in a loop and writes it back.
  The byte array is an \<open>8 word list\<close>.  A JavaScript number is an exact rational here
  (the rounding of double arithmetic is not modelled), and \<open>None\<close> is \<^verbatim>\<open>NaN\<close>, the
  value of \<^verbatim>\<open>undefined + noise\<close> after a read beyond the end of the array.
\<close>

type_synonym number = "rat option"

text \<open>
  Storing a number into a \<^verbatim>\<open>Uint8ClampedArray\<close> element (the platform's conversion of
  the element type, not code of the repository): \<^verbatim>\<open>NaN\<close> becomes 0, the value is clamped
  to 0..255 and rounded to the nearest integer, a tie going to the even neighbour.
\<close>

definition ToUint8Clamp :: "number \<Rightarrow> 8 word" where
  "ToUint8Clamp v =
     (case v of
        None \<Rightarrow> 0
      | Some x \<Rightarrow>
          if x \<le> 0 then 0
          else if 255 \<le> x then 255
          else (let f = \<lfloor>x\<rfloor> in
                if of_int f + 1 / 2 < x then word_of_int (f + 1)
                else if x < of_int f + 1 / 2 then word_of_int f
                else if even f then word_of_int f
                else word_of_int (f + 1)))"

text \<open>
  A byte read as a number, and \<^verbatim>\<open>data[i]\<close>: \<^verbatim>\<open>undefined\<close> beyond the end, which turns
  a sum into \<^verbatim>\<open>NaN\<close>.
\<close>

definition byte_value :: "8 word \<Rightarrow> rat" where
  "byte_value b = of_nat (unat b)"

definition ta_get :: "8 word list \<Rightarrow> nat \<Rightarrow> number" where
  "ta_get data i = (if i < length data then Some (byte_value (data ! i)) else None)"

text \<open>\<^verbatim>\<open>data[i] = v\<close>: a typed array ignores a write beyond its end.\<close>

definition ta_set :: "8 word list \<Rightarrow> nat \<Rightarrow> number \<Rightarrow> 8 word list" where
  "ta_set data i v = (if i < length data then data[i := ToUint8Clamp v] else data)"

definition num_add :: "number \<Rightarrow> rat \<Rightarrow> number" where
  "num_add v n = (case v of None \<Rightarrow> None | Some x \<Rightarrow> Some (x + n))"

text \<open>
  The loop \<^verbatim>\<open>for (let i = 0; i < data.length; i += 4)\<close>.  \<open>random k\<close> is what the
  \<open>k\<close>-th call of \<^verbatim>\<open>Math.random()\<close> in this pass returns; the iteration at index \<open>i\<close>
  makes call number \<open>i div 4\<close>.
\<close>

function grain_loop :: "(nat \<Rightarrow> rat) \<Rightarrow> rat \<Rightarrow> nat \<Rightarrow> 8 word list \<Rightarrow> 8 word list" where
  "grain_loop random strength i data =
     (if i < length data then
        (let noise = (random (i div 4) - 1 / 2) * strength;
             data1 = ta_set data i (num_add (ta_get data i) noise);
             data2 = ta_set data1 (i + 1) (num_add (ta_get data1 (i + 1)) noise);
             data3 = ta_set data2 (i + 2) (num_add (ta_get data2 (i + 2)) noise)
         in grain_loop random strength (i + 4) data3)
      else data)"
  by pat_completeness auto
termination
  by (relation "measure (\<lambda>(random, strength, i, data). length data - i)")
     (auto simp: ta_set_def)

text \<open>
  \<^verbatim>\<open>generateGrain(targetCtx, w, h, intensity)\<close> on the buffer that \<^verbatim>\<open>getImageData\<close>
  returned; the result is what \<^verbatim>\<open>putImageData\<close> writes back.  The intensity is the
  slider's value, an integer; \<^verbatim>\<open>2.55\<close> is the rational 255/100.
\<close>

definition generateGrain :: "(nat \<Rightarrow> rat) \<Rightarrow> 8 word list \<Rightarrow> int \<Rightarrow> 8 word list" where
  "generateGrain random data intensity =
     (let strength = of_int intensity * (255 / 100)
      in grain_loop random strength 0 data)"


section \<open>Images and drawing surfaces\<close>

text \<open>
  A \<^verbatim>\<open>File\<close> with its MIME type and name, and a decoded \<^verbatim>\<open>Image\<close> with the file it
  was decoded from and its natural size.
\<close>

record jsfile =
  ftype :: string
  fname :: string

record image =
  ifile :: jsfile
  iwidth :: int
  iheight :: int

text \<open>A rectangle \<open>(x, y, width, height)\<close>, in whole pixels and in fractional units.\<close>

type_synonym rect = "int \<times> int \<times> int \<times> int"
type_synonym qrect = "rat \<times> rat \<times> rat \<times> rat"

text \<open>
  One call \<^verbatim>\<open>offCtx.drawImage(image, sx, sy, sw, sh, dx, dy, dw, dh)\<close> on the offscreen
  canvas: the image, the source rectangle in the image's own pixels, and the destination
  rectangle.  The five-argument form \<^verbatim>\<open>drawImage(image, dx, dy, dw, dh)\<close> takes the whole
  image as its source rectangle.
\<close>

datatype blit = Blit image rect rect

definition whole :: "image \<Rightarrow> rect" where
  "whole img = (0, 0, iwidth img, iheight img)"

text \<open>
  Which source pixel a destination pixel shows (the canvas's scaling, sampled at the
  pixel's centre with the nearest neighbour; the browser's smoothing is not modelled),
  and the pixel of a surface after a list of draws, the later draw on top.
\<close>

fun blit_sample :: "blit \<Rightarrow> int \<times> int \<Rightarrow> (int \<times> int) option" where
  "blit_sample (Blit img (sx, sy, sw, sh) (dx, dy, dw, dh)) (x, y) =
     (if dx \<le> x \<and> x < dx + dw \<and> dy \<le> y \<and> y < dy + dh
      then Some (sx + ((2 * (x - dx) + 1) * sw) div (2 * dw),
                 sy + ((2 * (y - dy) + 1) * sh) div (2 * dh))
      else None)"

fun surface_sample :: "blit list \<Rightarrow> int \<times> int \<Rightarrow> (int \<times> int) option" where
  "surface_sample [] p = None"
| "surface_sample (b # bs) p =
     (case surface_sample bs p of Some q \<Rightarrow> Some q | None \<Rightarrow> blit_sample b p)"

text \<open>The value of \<^verbatim>\<open>ctx.filter\<close>: \<^verbatim>\<open>'none'\<close> or \<^verbatim>\<open>blur(Npx)\<close>.\<close>

datatype ctx_filter = NoFilter | Blur int

text \<open>
  What a call on the main canvas's context paints, with the filter in force:
  \<^verbatim>\<open>drawImage(originalImage, dx, dy, dw, dh)\<close>, \<^verbatim>\<open>drawImage(maskImage, dx, dy, dw, dh)\<close>
  (the cutout is named by the number of the request that produced it),
  \<^verbatim>\<open>drawImage(offscreenCanvas, dx, dy)\<close> with the offscreen canvas's size and content at
  that moment, and the grain pass \<^verbatim>\<open>generateGrain(ctx, w, h, intensity)\<close>.
\<close>

datatype paint =
    PaintImage ctx_filter image qrect
  | PaintCutout ctx_filter nat qrect
  | PaintSurface ctx_filter int int "blit list" int int
  | PaintGrain int

fun dest_rect :: "paint \<Rightarrow> qrect option" where
  "dest_rect (PaintImage f img r) = Some r"
| "dest_rect (PaintCutout f k r) = Some r"
| "dest_rect (PaintSurface f ow oh bs dx dy) = Some (of_int dx, of_int dy, of_int ow, of_int oh)"
| "dest_rect (PaintGrain g) = None"

text \<open>A canvas shows of a drawing only what falls inside its own rectangle.\<close>

fun clip :: "qrect \<Rightarrow> qrect \<Rightarrow> qrect" where
  "clip (x1, y1, w1, h1) (x2, y2, w2, h2) =
     (max x1 x2, max y1 y2,
      min (x1 + w1) (x2 + w2) - max x1 x2, min (y1 + h1) (y2 + h2) - max y1 y2)"

text \<open>
  The words of the design for the padding: the outermost one-pixel strips and the corner
  pixels of a source image, and a coordinate clamped to the source.
\<close>

definition top_strip :: "image \<Rightarrow> rect" where
  "top_strip img = (0, 0, iwidth img, 1)"

definition bottom_strip :: "image \<Rightarrow> rect" where
  "bottom_strip img = (0, iheight img - 1, iwidth img, 1)"

definition left_strip :: "image \<Rightarrow> rect" where
  "left_strip img = (0, 0, 1, iheight img)"

definition right_strip :: "image \<Rightarrow> rect" where
  "right_strip img = (iwidth img - 1, 0, 1, iheight img)"

definition clamp :: "int \<Rightarrow> int \<Rightarrow> int \<Rightarrow> int" where
  "clamp lo hi v = max lo (min hi v)"

definition edge_clamped :: "image \<Rightarrow> int \<Rightarrow> int \<times> int \<Rightarrow> int \<times> int" where
  "edge_clamped img pad p =
     (clamp 0 (iwidth img - 1) (fst p - pad), clamp 0 (iheight img - 1) (snd p - pad))"


section \<open>The editor's state\<close>

text \<open>
  The module's variables (\<^verbatim>\<open>originalImage\<close>, \<^verbatim>\<open>maskImage\<close>, \<^verbatim>\<open>fileName\<close>,
  \<^verbatim>\<open>isProcessing\<close>, \<^verbatim>\<open>currentFile\<close>), the parts of the page the script reads and writes
  (the two canvases, the sliders' values, the \<^verbatim>\<open>disabled\<close> and \<^verbatim>\<open>hidden\<close> attributes,
  the alerts shown, the downloads offered), and what is pending in the browser: the Images
  that \<^verbatim>\<open>handleFile\<close> created and that have not fired \<^verbatim>\<open>onload\<close>, the calls of
  \<^verbatim>\<open>fetch\<close> made so far (request \<open>k\<close> is for the file \<open>issued ! k\<close>), the requests whose
  \<^verbatim>\<open>fetch\<close> or \<^verbatim>\<open>response.blob()\<close> promise is unsettled, and the cutout Images that
  have not fired \<^verbatim>\<open>onload\<close>.  \<^verbatim>\<open>maskImage\<close> names the cutout Image by its request.
\<close>

record state =
  originalImage :: "image option"
  maskImage :: "nat option"
  fileName :: string
  isProcessing :: bool
  currentFile :: "jsfile option"
  ctxFilter :: ctx_filter
  canvasWidth :: int
  canvasHeight :: int
  canvas :: "paint list"
  canvasDisplayed :: bool
  placeholderDisplayed :: bool
  offWidth :: int
  offHeight :: int
  offscreen :: "blit list"
  blurValue :: int
  grainValue :: int
  blurDisabled :: bool
  grainDisabled :: bool
  downloadDisabled :: bool
  overlayHidden :: bool
  alerts :: "string list"
  downloads :: "(string \<times> paint list) list"
  decoding :: "(nat \<times> jsfile) list"
  created :: nat
  issued :: "jsfile list"
  fetching :: "nat list"
  reading :: "nat list"
  maskLoading :: "nat list"

definition MAX_IMAGE_WIDTH :: rat where
  "MAX_IMAGE_WIDTH = 1920"

definition setLoading :: "bool \<Rightarrow> state \<Rightarrow> state" where
  "setLoading isLoading s =
     s\<lparr>overlayHidden := \<not> isLoading, blurDisabled := isLoading,
       grainDisabled := isLoading, downloadDisabled := isLoading\<rparr>"

definition enableControls :: "state \<Rightarrow> state" where
  "enableControls s = s\<lparr>blurDisabled := False, grainDisabled := False, downloadDisabled := False\<rparr>"

text \<open>A drawing call on the main canvas adds to what the canvas shows.\<close>

definition draw :: "paint \<Rightarrow> state \<Rightarrow> state" where
  "draw p s = s\<lparr>canvas := canvas s @ [p]\<rparr>"

subsection \<open>render\<close>

text \<open>
  The three numbered parts of \<^verbatim>\<open>render\<close>.  Part 1 draws the background: with a cutout
  and a positive blur it sizes the offscreen canvas (which clears it), draws the image in
  its centre and the eight edge and corner draws, sets the filter, draws the offscreen
  canvas at \<open>(-pad, -pad)\<close> and resets the filter; otherwise it draws the image.
\<close>

definition draw_background :: "image \<Rightarrow> state \<Rightarrow> state" where
  "draw_background img s =
     (let w = canvasWidth s; h = canvasHeight s; blurAmount = blurValue s in
      if maskImage s \<noteq> None \<and> 0 < blurAmount then
        (let pad = min (blurAmount * 3) 100;
             s1 = s\<lparr>offWidth := w + pad * 2, offHeight := h + pad * 2, offscreen := []\<rparr>;
             s2 = s1\<lparr>offscreen :=
                    [Blit img (whole img) (pad, pad, w, h),
                     Blit img (0, 0, w, 1) (pad, 0, w, pad),
                     Blit img (0, h - 1, w, 1) (pad, h + pad, w, pad),
                     Blit img (0, 0, 1, h) (0, pad, pad, h),
                     Blit img (w - 1, 0, 1, h) (w + pad, pad, pad, h),
                     Blit img (0, 0, 1, 1) (0, 0, pad, pad),
                     Blit img (w - 1, 0, 1, 1) (w + pad, 0, pad, pad),
                     Blit img (0, h - 1, 1, 1) (0, h + pad, pad, pad),
                     Blit img (w - 1, h - 1, 1, 1) (w + pad, h + pad, pad, pad)]\<rparr>;
             s3 = s2\<lparr>ctxFilter := Blur blurAmount\<rparr>;
             s4 = draw (PaintSurface (ctxFilter s3) (offWidth s3) (offHeight s3) (offscreen s3)
                          (- pad) (- pad)) s3
         in s4\<lparr>ctxFilter := NoFilter\<rparr>)
      else draw (PaintImage (ctxFilter s) img (0, 0, of_int w, of_int h)) s)"

text \<open>
  Part 2 draws the cutout; \<^verbatim>\<open>drawImage\<close> paints nothing for an Image that has not
  loaded.
\<close>

definition draw_foreground :: "state \<Rightarrow> state" where
  "draw_foreground s =
     (case maskImage s of
        None \<Rightarrow> s
      | Some k \<Rightarrow>
          if k \<in> set (maskLoading s) then s
          else draw (PaintCutout (ctxFilter s) k
                       (0, 0, of_int (canvasWidth s), of_int (canvasHeight s))) s)"

text \<open>Part 3 runs the grain pass over the composited canvas.\<close>

definition draw_grain :: "state \<Rightarrow> state" where
  "draw_grain s =
     (let grainAmount = grainValue s in
      if 0 < grainAmount then draw (PaintGrain grainAmount) s else s)"

text \<open>
  \<^verbatim>\<open>render\<close>: nothing without an image (the context \<^verbatim>\<open>ctx\<close> always exists); else the
  canvas is cleared and the three parts run.
\<close>

definition render :: "state \<Rightarrow> state" where
  "render s =
     (case originalImage s of
        None \<Rightarrow> s
      | Some img \<Rightarrow> draw_grain (draw_foreground (draw_background img (s\<lparr>canvas := []\<rparr>))))"

subsection \<open>Background removal\<close>

text \<open>
  \<^verbatim>\<open>removeBackground\<close> up to its first \<^verbatim>\<open>await\<close>: the guard, the flag, the loading
  state and the call of \<^verbatim>\<open>fetch\<close>.
\<close>

definition removeBackground :: "jsfile \<Rightarrow> state \<Rightarrow> state" where
  "removeBackground f s =
     (if isProcessing s then s
      else (let s1 = setLoading True (s\<lparr>isProcessing := True\<rparr>)
            in s1\<lparr>issued := issued s1 @ [f], fetching := fetching s1 @ [length (issued s1)]\<rparr>))"

text \<open>The \<^verbatim>\<open>catch\<close> block.\<close>

definition removal_failed :: "state \<Rightarrow> state" where
  "removal_failed s =
     setLoading False
       (s\<lparr>alerts := alerts s @ [''Failed to process background. Check API key or connection.''],
          isProcessing := False\<rparr>)"

text \<open>
  The continuations of \<^verbatim>\<open>removeBackground\<close> for request \<open>k\<close>: the \<^verbatim>\<open>fetch\<close> promise
  resolves with \<^verbatim>\<open>response.ok\<close> true or false (false throws into the \<^verbatim>\<open>catch\<close>) or
  rejects; the \<^verbatim>\<open>blob()\<close> promise resolves, which creates the cutout Image and assigns
  it to \<^verbatim>\<open>maskImage\<close>, or rejects; the cutout Image fires \<^verbatim>\<open>onload\<close>.
\<close>

definition fetch_resolved :: "nat \<Rightarrow> bool \<Rightarrow> state \<Rightarrow> state" where
  "fetch_resolved k ok s =
     (let s1 = s\<lparr>fetching := removeAll k (fetching s)\<rparr>
      in if \<not> ok then removal_failed s1 else s1\<lparr>reading := reading s1 @ [k]\<rparr>)"

definition fetch_rejected :: "nat \<Rightarrow> state \<Rightarrow> state" where
  "fetch_rejected k s = removal_failed (s\<lparr>fetching := removeAll k (fetching s)\<rparr>)"

definition blob_resolved :: "nat \<Rightarrow> state \<Rightarrow> state" where
  "blob_resolved k s =
     s\<lparr>reading := removeAll k (reading s), maskImage := Some k,
       maskLoading := maskLoading s @ [k]\<rparr>"

definition blob_rejected :: "nat \<Rightarrow> state \<Rightarrow> state" where
  "blob_rejected k s = removal_failed (s\<lparr>reading := removeAll k (reading s)\<rparr>)"

definition mask_onload :: "nat \<Rightarrow> state \<Rightarrow> state" where
  "mask_onload k s =
     render (setLoading False (s\<lparr>maskLoading := removeAll k (maskLoading s),
                                  isProcessing := False\<rparr>))"

subsection \<open>Uploads\<close>

text \<open>
  \<^verbatim>\<open>handleFile\<close> up to the creation of the Image, and the Image's \<^verbatim>\<open>onload\<close> with the
  natural size the decoder found.  Assigning the canvas's width and height clears the
  canvas and resets its context; the height is truncated to an integer there, the
  drawing call gets the unrounded one.
\<close>

definition handleFile :: "jsfile \<Rightarrow> state \<Rightarrow> state" where
  "handleFile f s =
     (if take 6 (ftype f) \<noteq> ''image/'' then s\<lparr>alerts := alerts s @ [''Please upload an image file'']\<rparr>
      else s\<lparr>currentFile := Some f,
             fileName := takeWhile (\<lambda>c. c \<noteq> CHR ''.'') (fname f) @ ''_edited.png'',
             maskImage := None,
             isProcessing := False,
             decoding := decoding s @ [(created s, f)],
             created := created s + 1\<rparr>)"

definition img_onload :: "jsfile \<Rightarrow> int \<Rightarrow> int \<Rightarrow> state \<Rightarrow> state" where
  "img_onload f iw ih s =
     (let img = \<lparr>ifile = f, iwidth = iw, iheight = ih\<rparr>;
          s1 = s\<lparr>originalImage := Some img\<rparr>;
          w = of_int iw;
          h = of_int ih;
          (w, h) = (if w > MAX_IMAGE_WIDTH then (MAX_IMAGE_WIDTH, (MAX_IMAGE_WIDTH / w) * h)
                    else (w, h));
          s2 = s1\<lparr>canvasWidth := \<lfloor>w\<rfloor>, canvasHeight := \<lfloor>h\<rfloor>, canvas := [],
                  ctxFilter := NoFilter\<rparr>;
          s3 = draw (PaintImage (ctxFilter s2) img (0, 0, w, h)) s2;
          s4 = s3\<lparr>canvasDisplayed := True, placeholderDisplayed := False\<rparr>;
          s5 = enableControls s4
      in s5\<lparr>blurValue := 0, grainValue := 0\<rparr>)"

definition downloadImage :: "state \<Rightarrow> state" where
  "downloadImage s = s\<lparr>downloads := downloads s @ [(fileName s, canvas s)]\<rparr>"

subsection \<open>Events\<close>

text \<open>
  The listeners of \<^verbatim>\<open>setupEventListeners\<close> and the callbacks above, one event each.  A
  slider's \<^verbatim>\<open>input\<close> event carries the value the user set (an integer, that
  \<^verbatim>\<open>parseInt\<close> reads back); the listener of the blur slider renders and then starts the
  removal if needed.  A drop and a change of the file input both call \<^verbatim>\<open>handleFile\<close>.
\<close>

datatype event =
    Upload jsfile
  | ImageLoaded nat int int
  | BlurInput int
  | GrainInput int
  | DownloadClick
  | FetchResolved nat bool
  | FetchRejected nat
  | BlobResolved nat
  | BlobRejected nat
  | MaskLoaded nat

definition blur_input :: "int \<Rightarrow> state \<Rightarrow> state" where
  "blur_input v s =
     (let s1 = render (s\<lparr>blurValue := v\<rparr>) in
      case currentFile s1 of
        None \<Rightarrow> s1
      | Some f \<Rightarrow>
          if 0 < blurValue s1 \<and> maskImage s1 = None \<and> \<not> isProcessing s1
          then removeBackground f s1 else s1)"

definition grain_input :: "int \<Rightarrow> state \<Rightarrow> state" where
  "grain_input v s = render (s\<lparr>grainValue := v\<rparr>)"

fun step :: "event \<Rightarrow> state \<Rightarrow> state" where
  "step (Upload f) s = handleFile f s"
| "step (ImageLoaded k iw ih) s =
     (case map_of (decoding s) k of
        None \<Rightarrow> s
      | Some f \<Rightarrow> img_onload f iw ih (s\<lparr>decoding := filter (\<lambda>d. fst d \<noteq> k) (decoding s)\<rparr>))"
| "step (BlurInput v) s = blur_input v s"
| "step (GrainInput v) s = grain_input v s"
| "step DownloadClick s = downloadImage s"
| "step (FetchResolved k ok) s = fetch_resolved k ok s"
| "step (FetchRejected k) s = fetch_rejected k s"
| "step (BlobResolved k) s = blob_resolved k s"
| "step (BlobRejected k) s = blob_rejected k s"
| "step (MaskLoaded k) s = mask_onload k s"

text \<open>
  When the browser can deliver an event: a disabled control fires no user event, a
  callback runs only for something pending, and a decoded image has a positive size.
  The drop zone is never disabled.  The drawing calls are taken to succeed, so the images
  are those that leave the canvas at least one row after scaling (on a canvas without
  rows \<^verbatim>\<open>getImageData\<close> throws), and a cutout Image that never fires \<^verbatim>\<open>onload\<close> stays
  among the loading ones.
\<close>

definition leaves_a_row :: "int \<Rightarrow> int \<Rightarrow> bool" where
  "leaves_a_row iw ih \<longleftrightarrow>
     of_int iw \<le> MAX_IMAGE_WIDTH \<or> 1 \<le> (MAX_IMAGE_WIDTH / of_int iw) * of_int ih"

fun enabled :: "state \<Rightarrow> event \<Rightarrow> bool" where
  "enabled s (Upload f) = True"
| "enabled s (ImageLoaded k iw ih) =
     (map_of (decoding s) k \<noteq> None \<and> 0 < iw \<and> 0 < ih \<and> leaves_a_row iw ih)"
| "enabled s (BlurInput v) = (\<not> blurDisabled s)"
| "enabled s (GrainInput v) = (\<not> grainDisabled s)"
| "enabled s DownloadClick = (\<not> downloadDisabled s)"
| "enabled s (FetchResolved k ok) = (k \<in> set (fetching s))"
| "enabled s (FetchRejected k) = (k \<in> set (fetching s))"
| "enabled s (BlobResolved k) = (k \<in> set (reading s))"
| "enabled s (BlobRejected k) = (k \<in> set (reading s))"
| "enabled s (MaskLoaded k) = (k \<in> set (maskLoading s))"

text \<open>
  The page as it loads: no image, the placeholder shown, the sliders at 0 and, as the
  repository's test of the initial state expects of the page's markup, every control
  disabled.  A new canvas is 300 by 150.
\<close>

definition initial :: state where
  "initial =
     \<lparr>originalImage = None, maskImage = None, fileName = ''image.png'',
      isProcessing = False, currentFile = None, ctxFilter = NoFilter,
      canvasWidth = 300, canvasHeight = 150, canvas = [],
      canvasDisplayed = False, placeholderDisplayed = True,
      offWidth = 300, offHeight = 150, offscreen = [],
      blurValue = 0, grainValue = 0,
      blurDisabled = True, grainDisabled = True, downloadDisabled = True,
      overlayHidden = True, alerts = [], downloads = [],
      decoding = [], created = 0, issued = [], fetching = [], reading = [],
      maskLoading = []\<rparr>"

text \<open>An execution: the events in order, each one deliverable when it comes.\<close>

fun run :: "event list \<Rightarrow> state \<Rightarrow> state option" where
  "run [] s = Some s"
| "run (e # es) s = (if enabled s e then run es (step e s) else None)"

text \<open>
  The removals under way: a request whose promise is unsettled, or whose cutout Image is
  still loading.  An execution in which a file is accepted only while none is under way.
\<close>

definition outstanding :: "state \<Rightarrow> nat" where
  "outstanding s = length (fetching s) + length (reading s) + length (maskLoading s)"



subsection \<open>Invariants and scenarios\<close>

text \<open>
  What holds in every state the page can reach: the filter is \<^verbatim>\<open>'none'\<close> between
  handlers, the canvas has a positive width and height, and whenever the blur slider is enabled or a removal is under way a file has
  been accepted and an image installed; a file has been accepted while an upload is being
  decoded.
\<close>

definition consistent :: "state \<Rightarrow> bool" where
  "consistent s \<longleftrightarrow>
     ctxFilter s = NoFilter \<and>
     0 < canvasWidth s \<and> 0 < canvasHeight s \<and>
     (decoding s \<noteq> [] \<longrightarrow> currentFile s \<noteq> None) \<and>
     (\<not> blurDisabled s \<or> fetching s \<noteq> [] \<or> reading s \<noteq> [] \<or> maskLoading s \<noteq> []
        \<longrightarrow> originalImage s \<noteq> None \<and> currentFile s \<noteq> None)"


text \<open>Two files for the executions below, and the state after the first is installed.\<close>

definition photoA :: jsfile where
  "photoA = \<lparr>ftype = ''image/png'', fname = ''a.png''\<rparr>"

definition photoB :: jsfile where
  "photoB = \<lparr>ftype = ''image/jpeg'', fname = ''b.jpg''\<rparr>"

text \<open>
  Which source pixel the offscreen canvas shows at a pixel, and a photograph wider than
  the canvas may be.
\<close>

definition offscreen_pixel :: "int \<times> int \<Rightarrow> state \<Rightarrow> (int \<times> int) option" where
  "offscreen_pixel p s = surface_sample (offscreen s) p"

definition photoW :: jsfile where
  "photoW = \<lparr>ftype = ''image/jpeg'', fname = ''wide.jpg''\<rparr>"


section \<open>Properties of the grain pass\<close>

declare grain_loop.simps [simp del]

lemma length_grain_loop: "length (grain_loop random st i data) = length data"
proof (induction random st i data rule: grain_loop.induct)
  case (1 random st i data)
  show ?case
    by (subst grain_loop.simps) (simp add: 1 Let_def ta_set_def)
qed

lemma nth_ta_set:
  "j < length data \<Longrightarrow> ta_set data i v ! j = (if j = i then ToUint8Clamp v else data ! j)"
  by (simp add: ta_set_def nth_list_update)

lemma ta_write_nth:
  assumes "j < length data"
  shows "ta_set data i (num_add (ta_get data i) n) ! j =
           (if j = i then ToUint8Clamp (Some (byte_value (data ! j) + n)) else data ! j)"
  using assms by (simp add: nth_ta_set ta_get_def num_add_def)

lemma aligned4:
  assumes "i mod 4 = (0::nat)"
  shows "(i + 1) div 4 = i div 4" "(i + 2) div 4 = i div 4"
    "i mod 4 \<noteq> 3" "(i + 1) mod 4 \<noteq> 3" "(i + 2) mod 4 \<noteq> 3" "(i + 3) mod 4 = 3"
    "(i + 4) mod 4 = 0"
proof -
  from assms have "4 dvd i" by (simp add: dvd_eq_mod_eq_0)
  then obtain q where i: "i = q * 4" by (auto elim: dvdE)
  show "(i + 1) div 4 = i div 4" "(i + 2) div 4 = i div 4"
    unfolding i by (simp_all only: div_mult_self3 zero_neq_numeral not_False_eq_True) simp_all
  have m: "\<And>k. (i + k) mod 4 = k mod 4" unfolding i by (simp only: mod_mult_self3)
  show "i mod 4 \<noteq> 3" using assms by simp
  show "(i + 1) mod 4 \<noteq> 3" "(i + 2) mod 4 \<noteq> 3" "(i + 3) mod 4 = 3" "(i + 4) mod 4 = 0"
    unfolding m by simp_all
qed

lemma grain_loop_nth:
  "i mod 4 = 0 \<Longrightarrow> j < length data \<Longrightarrow>
   grain_loop random st i data ! j =
     (if i \<le> j \<and> j mod 4 \<noteq> 3
      then ToUint8Clamp (Some (byte_value (data ! j) + (random (j div 4) - 1 / 2) * st))
      else data ! j)"
proof (induction random st i data rule: grain_loop.induct)
  case (1 random st i data)
  let ?new = "\<lambda>d j. ToUint8Clamp (Some (byte_value (d ! j) + (random (j div 4) - 1 / 2) * st))"
  show ?case
  proof (cases "i < length data")
    case False
    with "1.prems" show ?thesis by (subst grain_loop.simps) simp
  next
    case True
    define noise where "noise = (random (i div 4) - 1 / 2) * st"
    define data1 where "data1 = ta_set data i (num_add (ta_get data i) noise)"
    define data2 where "data2 = ta_set data1 (i + 1) (num_add (ta_get data1 (i + 1)) noise)"
    define data3 where "data3 = ta_set data2 (i + 2) (num_add (ta_get data2 (i + 2)) noise)"
    have len: "length data1 = length data" "length data2 = length data" "length data3 = length data"
      by (simp_all add: data3_def data2_def data1_def ta_set_def)
    have unfold: "grain_loop random st i data = grain_loop random st (i + 4) data3"
      using True by (subst grain_loop.simps) (simp add: Let_def noise_def data1_def data2_def data3_def)
    note al = aligned4[OF "1.prems"(1)]
    have j: "j < length data" by (rule "1.prems"(2))
    have IH: "grain_loop random st (i + 4) data3 ! j =
       (if i + 4 \<le> j \<and> j mod 4 \<noteq> 3 then ?new data3 j else data3 ! j)"
      using "1.IH"[OF True noise_def data1_def data2_def data3_def al(7)] j len by simp
    have d1: "data1 ! j = (if j = i then ToUint8Clamp (Some (byte_value (data ! j) + noise)) else data ! j)"
      unfolding data1_def using j by (rule ta_write_nth)
    have d2: "data2 ! j = (if j = i + 1 then ToUint8Clamp (Some (byte_value (data1 ! j) + noise)) else data1 ! j)"
      unfolding data2_def using j len by (intro ta_write_nth) simp
    have d3: "data3 ! j = (if j = i + 2 then ToUint8Clamp (Some (byte_value (data2 ! j) + noise)) else data2 ! j)"
      unfolding data3_def using j len by (intro ta_write_nth) simp
    consider "j < i" | "j = i" | "j = i + 1" | "j = i + 2" | "j = i + 3" | "i + 4 \<le> j" by arith
    then show ?thesis
    proof cases
      case 1 with d1 d2 d3 show ?thesis unfolding unfold IH by simp
    next
      case 2 with al d1 d2 d3 show ?thesis unfolding unfold IH by (simp add: noise_def)
    next
      case 3 with al d1 d2 d3 show ?thesis unfolding unfold IH by (simp add: noise_def)
    next
      case 4 with al d1 d2 d3 show ?thesis unfolding unfold IH by (simp add: noise_def)
    next
      case 5 with al d1 d2 d3 show ?thesis unfolding unfold IH by simp
    next
      case 6 with d1 d2 d3 show ?thesis unfolding unfold IH by simp
    qed
  qed
qed

lemma generateGrain_nth:
  assumes "j < length data"
  shows "generateGrain random data g ! j =
     (if j mod 4 \<noteq> 3
      then ToUint8Clamp (Some (byte_value (data ! j) +
                                 (random (j div 4) - 1 / 2) * (of_int g * (255 / 100))))
      else data ! j)"
  unfolding generateGrain_def Let_def using grain_loop_nth[of 0 j data random] assms by simp

lemma byte_value_range: "0 \<le> byte_value b" "byte_value b \<le> 255"
proof -
  show "0 \<le> byte_value b" by (simp only: byte_value_def of_nat_0_le_iff)
  have "unat b < 256" using unsigned_less[of b, where 'a = nat] by simp
  then have "unat b \<le> 255" by simp
  then have "(of_nat (unat b) :: rat) \<le> of_nat 255" by (simp only: of_nat_le_iff)
  then show "byte_value b \<le> 255" by (simp only: byte_value_def of_nat_numeral)
qed





lemma floor_rat_numeral: "\<lfloor>numeral a / numeral b :: rat\<rfloor> = numeral a div numeral b"
  using floor_divide_of_int_eq[of "numeral a" "numeral b", where ?'a = rat] by simp








text \<open>
  C7.  The pass returns a buffer of the same length, and every byte at an index
  \<open>j mod 4 = 3\<close>, the alpha byte of a pixel, is the byte that was there before,
  whatever the intensity and the random numbers.
\<close>

theorem grain_keeps_alpha:
  "length (generateGrain random data g) = length data
   \<and> (\<forall>j < length data. j mod 4 = 3 \<longrightarrow> generateGrain random data g ! j = data ! j)"
proof (intro conjI allI impI)
  show "length (generateGrain random data g) = length data"
    by (simp add: generateGrain_def length_grain_loop)
next
  fix j
  assume "j < length data" and "j mod 4 = 3"
  then show "generateGrain random data g ! j = data ! j"
    using generateGrain_nth[of j data random g] by simp
qed

theorem grain_keeps_alpha_witness:
  "(3 :: nat) < length [250, 3, 128, 77 :: 8 word] \<and> (3 :: nat) mod 4 = 3
   \<and> generateGrain (\<lambda>k. 9 / 10) [250, 3, 128, 77] 50 ! 3 = 77"
proof -
  have "(3 :: nat) < length [250, 3, 128, 77 :: 8 word]" and "(3 :: nat) mod 4 = 3" by simp_all
  moreover from this grain_keeps_alpha [of "\<lambda>k. 9 / 10" "[250, 3, 128, 77]" 50]
  have "generateGrain (\<lambda>k. 9 / 10) [250, 3, 128, 77] 50 ! 3 = [250, 3, 128, 77 :: 8 word] ! 3"
    by blast
  ultimately show ?thesis by simp
qed




section \<open>Properties of the editor\<close>

lemmas render_parts = render_def draw_background_def draw_foreground_def draw_grain_def
  draw_def Let_def

lemma render_keeps:
  "originalImage (render s) = originalImage s"
  "maskImage (render s) = maskImage s"
  "isProcessing (render s) = isProcessing s"
  "currentFile (render s) = currentFile s"
  "blurValue (render s) = blurValue s"
  "grainValue (render s) = grainValue s"
  "blurDisabled (render s) = blurDisabled s"
  "grainDisabled (render s) = grainDisabled s"
  "downloadDisabled (render s) = downloadDisabled s"
  "overlayHidden (render s) = overlayHidden s"
  "alerts (render s) = alerts s"
  "issued (render s) = issued s"
  "fetching (render s) = fetching s"
  "reading (render s) = reading s"
  "maskLoading (render s) = maskLoading s"
  "decoding (render s) = decoding s"
  "canvasWidth (render s) = canvasWidth s"
  "canvasHeight (render s) = canvasHeight s"
  by (simp_all add: render_parts split: option.split)

lemma render_filter: "ctxFilter s = NoFilter \<Longrightarrow> ctxFilter (render s) = NoFilter"
  by (simp add: render_parts split: option.split)

lemma removal_failed_keeps:
  "originalImage (removal_failed s) = originalImage s"
  "maskImage (removal_failed s) = maskImage s"
  "currentFile (removal_failed s) = currentFile s"
  "blurValue (removal_failed s) = blurValue s"
  "grainValue (removal_failed s) = grainValue s"
  "ctxFilter (removal_failed s) = ctxFilter s"
  "canvasWidth (removal_failed s) = canvasWidth s"
  "canvasHeight (removal_failed s) = canvasHeight s"
  "decoding (removal_failed s) = decoding s"
  "issued (removal_failed s) = issued s"
  "fetching (removal_failed s) = fetching s"
  "reading (removal_failed s) = reading s"
  "maskLoading (removal_failed s) = maskLoading s"
  "isProcessing (removal_failed s) = False"
  "blurDisabled (removal_failed s) = False"
  "grainDisabled (removal_failed s) = False"
  "downloadDisabled (removal_failed s) = False"
  "overlayHidden (removal_failed s) = True"
  "alerts (removal_failed s) =
     alerts s @ [''Failed to process background. Check API key or connection.'']"
  by (simp_all add: removal_failed_def setLoading_def)

lemma img_onload_after:
  "blurValue (img_onload f iw ih s) = 0"
  "grainValue (img_onload f iw ih s) = 0"
  "blurDisabled (img_onload f iw ih s) = False"
  "grainDisabled (img_onload f iw ih s) = False"
  "downloadDisabled (img_onload f iw ih s) = False"
  "maskImage (img_onload f iw ih s) = maskImage s"
  "originalImage (img_onload f iw ih s) = Some \<lparr>ifile = f, iwidth = iw, iheight = ih\<rparr>"
  "currentFile (img_onload f iw ih s) = currentFile s"
  "ctxFilter (img_onload f iw ih s) = NoFilter"
  "decoding (img_onload f iw ih s) = decoding s"
  "fetching (img_onload f iw ih s) = fetching s"
  "reading (img_onload f iw ih s) = reading s"
  "maskLoading (img_onload f iw ih s) = maskLoading s"
  by (simp_all add: img_onload_def enableControls_def draw_def Let_def split: prod.split)

lemma img_onload_canvas:
  assumes "0 < iw" and "0 < ih" and "leaves_a_row iw ih"
  shows "0 < canvasWidth (img_onload f iw ih s)" and "0 < canvasHeight (img_onload f iw ih s)"
proof -
  have w: "canvasWidth (img_onload f iw ih s) =
             (if MAX_IMAGE_WIDTH < of_int iw then \<lfloor>MAX_IMAGE_WIDTH\<rfloor> else iw)"
    and h: "canvasHeight (img_onload f iw ih s) =
             (if MAX_IMAGE_WIDTH < of_int iw then \<lfloor>(MAX_IMAGE_WIDTH / of_int iw) * of_int ih\<rfloor>
              else ih)"
    by (simp_all add: img_onload_def enableControls_def draw_def Let_def)
  show "0 < canvasWidth (img_onload f iw ih s)"
    unfolding w using assms(1) by (simp add: MAX_IMAGE_WIDTH_def)
  show "0 < canvasHeight (img_onload f iw ih s)"
  proof (cases "MAX_IMAGE_WIDTH < of_int iw")
    case True
    with assms(3) have "1 \<le> (MAX_IMAGE_WIDTH / of_int iw) * of_int ih"
      by (simp add: leaves_a_row_def)
    then have "1 \<le> \<lfloor>(MAX_IMAGE_WIDTH / of_int iw) * of_int ih\<rfloor>" by (simp add: le_floor_iff)
    with True show ?thesis unfolding h by simp
  next
    case False
    with assms(2) show ?thesis unfolding h by simp
  qed
qed

lemma consistent_initial: "consistent initial"
  by (simp add: consistent_def initial_def)

lemma consistent_step:
  assumes "consistent s" and "enabled s e"
  shows "consistent (step e s)"
proof (cases e)
  case (Upload f)
  with assms show ?thesis by (auto simp: consistent_def handleFile_def)
next
  case (ImageLoaded k iw ih)
  with assms(2) obtain d where d: "map_of (decoding s) k = Some d"
    and size: "0 < iw" "0 < ih" "leaves_a_row iw ih"
    by auto
  from d have "decoding s \<noteq> []" by auto
  with assms(1) have "currentFile s \<noteq> None" by (simp add: consistent_def)
  then show ?thesis
    unfolding ImageLoaded
    using img_onload_canvas[OF size] by (simp add: consistent_def d img_onload_after)
next
  case (BlurInput v)
  with assms show ?thesis
    by (auto simp: consistent_def blur_input_def removeBackground_def setLoading_def
                   render_keeps render_filter Let_def split: option.split)
next
  case (GrainInput v)
  with assms show ?thesis
    by (auto simp: consistent_def grain_input_def render_keeps render_filter)
next
  case DownloadClick
  with assms show ?thesis by (auto simp: consistent_def downloadImage_def)
next
  case (FetchResolved k ok)
  with assms show ?thesis
    by (auto simp: consistent_def fetch_resolved_def removal_failed_keeps Let_def)
next
  case (FetchRejected k)
  with assms show ?thesis
    by (auto simp: consistent_def fetch_rejected_def removal_failed_keeps)
next
  case (BlobResolved k)
  with assms show ?thesis by (auto simp: consistent_def blob_resolved_def)
next
  case (BlobRejected k)
  with assms show ?thesis
    by (auto simp: consistent_def blob_rejected_def removal_failed_keeps)
next
  case (MaskLoaded k)
  with assms show ?thesis
    by (auto simp: consistent_def mask_onload_def setLoading_def render_keeps render_filter)
qed

lemma consistent_run: "run es s = Some s' \<Longrightarrow> consistent s \<Longrightarrow> consistent s'"
proof (induction es arbitrary: s)
  case Nil
  then show ?case by simp
next
  case (Cons e es)
  then show ?case by (auto split: if_splits intro: consistent_step)
qed


lemmas scenario_defs = initial_def photoA_def photoB_def handleFile_def img_onload_def
  blur_input_def grain_input_def removeBackground_def removal_failed_def fetch_resolved_def
  fetch_rejected_def blob_resolved_def blob_rejected_def mask_onload_def setLoading_def
  enableControls_def downloadImage_def MAX_IMAGE_WIDTH_def whole_def outstanding_def
  leaves_a_row_def render_parts















lemma response_stored_unchecked:
  "maskImage (step (BlobResolved k) s) = Some k"
  "currentFile (step (BlobResolved k) s) = currentFile s"
  "originalImage (step (BlobResolved k) s) = originalImage s"
  by (simp_all add: blob_resolved_def)

text \<open>
  C1 at a concrete execution.  Request 0 is made for \<open>photoA\<close>; \<open>photoB\<close> is uploaded
  and installed while the request is unsettled; then the response arrives.  Nothing
  compares it with the current file: it becomes \<^verbatim>\<open>maskImage\<close>, and the render that its
  \<^verbatim>\<open>onload\<close> runs draws the cutout of \<open>photoA\<close> over \<open>photoB\<close>.
\<close>

theorem superseded_cutout_is_applied:
  "map_option issued
     (run [Upload photoA, ImageLoaded 0 10 10, BlurInput 5, Upload photoB, ImageLoaded 1 20 20,
           FetchResolved 0 True, BlobResolved 0, MaskLoaded 0] initial) = Some [photoA]
   \<and> map_option currentFile
     (run [Upload photoA, ImageLoaded 0 10 10, BlurInput 5, Upload photoB, ImageLoaded 1 20 20,
           FetchResolved 0 True, BlobResolved 0, MaskLoaded 0] initial) = Some (Some photoB)
   \<and> map_option maskImage
     (run [Upload photoA, ImageLoaded 0 10 10, BlurInput 5, Upload photoB, ImageLoaded 1 20 20,
           FetchResolved 0 True, BlobResolved 0, MaskLoaded 0] initial) = Some (Some 0)
   \<and> map_option canvas
     (run [Upload photoA, ImageLoaded 0 10 10, BlurInput 5, Upload photoB, ImageLoaded 1 20 20,
           FetchResolved 0 True, BlobResolved 0, MaskLoaded 0] initial)
       = Some [PaintImage NoFilter \<lparr>ifile = photoB, iwidth = 20, iheight = 20\<rparr> (0, 0, 20, 20),
               PaintCutout NoFilter 0 (0, 0, 20, 20)]"
  by (simp add: scenario_defs)


section \<open>Properties of the background\<close>

lemma canvas_draw_foreground: "\<exists>ps. canvas (draw_foreground s) = canvas s @ ps"
  by (simp add: draw_foreground_def draw_def split: option.split)

lemma canvas_draw_grain: "\<exists>ps. canvas (draw_grain s) = canvas s @ ps"
  by (simp add: draw_grain_def draw_def Let_def)

lemma canvas_draw_background:
  assumes "ctxFilter s = NoFilter" and "canvas s = []"
  shows "canvas (draw_background img s) =
     [if maskImage s \<noteq> None \<and> 0 < blurValue s
      then PaintSurface (Blur (blurValue s))
             (canvasWidth s + min (blurValue s * 3) 100 * 2)
             (canvasHeight s + min (blurValue s * 3) 100 * 2)
             (offscreen (draw_background img s))
             (- min (blurValue s * 3) 100) (- min (blurValue s * 3) 100)
      else PaintImage NoFilter img (0, 0, of_int (canvasWidth s), of_int (canvasHeight s))]"
  using assms by (simp add: draw_background_def draw_def Let_def)

text \<open>
  C5.  In every state an execution reaches with an image installed, and for every value
  \<open>r\<close> of the blur slider, part 1 of \<^verbatim>\<open>render\<close> paints one layer, the first of the
  frame; what the canvas shows of it is the canvas's own rectangle, \<open>w\<close> by \<open>h\<close> at the
  origin; and for \<open>r = 0\<close> the layer is the image itself, drawn without a filter into
  that rectangle.
\<close>

theorem background_fills_canvas_and_bypasses_blur:
  assumes "run es initial = Some s" and "originalImage s = Some img"
  shows "\<exists>p rest.
           canvas (draw_background img (s\<lparr>blurValue := r, canvas := []\<rparr>)) = [p]
         \<and> canvas (render (s\<lparr>blurValue := r\<rparr>)) = p # rest
         \<and> map_option (\<lambda>d. clip d (0, 0, of_int (canvasWidth s), of_int (canvasHeight s)))
              (dest_rect p)
             = Some (0, 0, of_int (canvasWidth s), of_int (canvasHeight s))
         \<and> (r = 0 \<longrightarrow>
               p = PaintImage NoFilter img (0, 0, of_int (canvasWidth s), of_int (canvasHeight s)))"
proof -
  define s0 where "s0 = s\<lparr>blurValue := r, canvas := []\<rparr>"
  define pad where "pad = min (r * 3) 100"
  define p where "p =
     (if maskImage s \<noteq> None \<and> 0 < r
      then PaintSurface (Blur r) (canvasWidth s + pad * 2) (canvasHeight s + pad * 2)
             (offscreen (draw_background img s0)) (- pad) (- pad)
      else PaintImage NoFilter img (0, 0, of_int (canvasWidth s), of_int (canvasHeight s)))"
  have "consistent s" using consistent_run[OF assms(1) consistent_initial] .
  then have f: "ctxFilter s0 = NoFilter" by (simp add: consistent_def s0_def)
  have bg: "canvas (draw_background img s0) = [p]"
    using canvas_draw_background[OF f, of img] by (simp add: s0_def p_def pad_def)
  obtain ps where fg: "canvas (draw_foreground (draw_background img s0)) = [p] @ ps"
    using canvas_draw_foreground[of "draw_background img s0"] bg by auto
  obtain qs where gr: "canvas (draw_grain (draw_foreground (draw_background img s0)))
      = ([p] @ ps) @ qs"
    using canvas_draw_grain[of "draw_foreground (draw_background img s0)"] fg by auto
  have r: "canvas (render (s\<lparr>blurValue := r\<rparr>)) = p # (ps @ qs)"
    using gr assms(2) by (simp add: render_def s0_def)
  have "0 < r \<Longrightarrow> 0 < pad" by (simp add: pad_def)
  then have c: "map_option (\<lambda>d. clip d (0, 0, of_int (canvasWidth s), of_int (canvasHeight s)))
              (dest_rect p)
             = Some (0, 0, of_int (canvasWidth s), of_int (canvasHeight s))"
    by (simp add: p_def)
  have z: "r = 0 \<longrightarrow>
       p = PaintImage NoFilter img (0, 0, of_int (canvasWidth s), of_int (canvasHeight s))"
    by (simp add: p_def)
  from bg r c z show ?thesis unfolding s0_def by blast
qed

theorem background_fills_canvas_and_bypasses_blur_witness:
  "run [Upload photoA, ImageLoaded 0 10 10] initial
     = Some (step (ImageLoaded 0 10 10) (step (Upload photoA) initial))
   \<and> originalImage (step (ImageLoaded 0 10 10) (step (Upload photoA) initial))
     = Some \<lparr>ifile = photoA, iwidth = 10, iheight = 10\<rparr>
   \<and> (\<exists>rest. canvas (render (step (ImageLoaded 0 10 10) (step (Upload photoA) initial)
                               \<lparr>blurValue := 0\<rparr>))
        = PaintImage NoFilter \<lparr>ifile = photoA, iwidth = 10, iheight = 10\<rparr> (0, 0, 10, 10) # rest)"
proof -
  have r: "run [Upload photoA, ImageLoaded 0 10 10] initial
     = Some (step (ImageLoaded 0 10 10) (step (Upload photoA) initial))"
    by (simp add: scenario_defs)
  have i: "originalImage (step (ImageLoaded 0 10 10) (step (Upload photoA) initial))
     = Some \<lparr>ifile = photoA, iwidth = 10, iheight = 10\<rparr>"
    by (simp add: scenario_defs)
  have w: "canvasWidth (step (ImageLoaded 0 10 10) (step (Upload photoA) initial)) = 10"
    "canvasHeight (step (ImageLoaded 0 10 10) (step (Upload photoA) initial)) = 10"
    by (simp_all add: scenario_defs)
  from background_fills_canvas_and_bypasses_blur [OF r i, of 0] w
  have "\<exists>rest. canvas (render (step (ImageLoaded 0 10 10) (step (Upload photoA) initial)
                               \<lparr>blurValue := 0\<rparr>))
        = PaintImage NoFilter \<lparr>ifile = photoA, iwidth = 10, iheight = 10\<rparr> (0, 0, 10, 10) # rest"
    by auto
  with r i show ?thesis by blast
qed


lemma axis_same:
  assumes "0 < d" and "0 \<le> k"
  shows "((2 * k + 1) * d) div (2 * d) = (k :: int)"
proof -
  have "(2 * k + 1) * d = d + k * (2 * d)" by (simp add: algebra_simps)
  then have "((2 * k + 1) * d) div (2 * d) = (d + k * (2 * d)) div (2 * d)" by simp
  also have "\<dots> = d div (2 * d) + k" using assms(1) by (subst div_mult_self1) simp_all
  also have "d div (2 * d) = 0" using assms(1) by (simp add: div_pos_pos_trivial)
  finally show ?thesis by simp
qed

lemma axis_one:
  assumes "0 \<le> k" and "k < d"
  shows "((2 * k + 1) * 1) div (2 * d) = (0 :: int)"
  using assms by (simp add: div_pos_pos_trivial)

lemma blit_sample_copy:
  assumes "0 < w" and "0 < h"
  shows "blit_sample (Blit img (sx, sy, w, h) (dx, dy, w, h)) (x, y) =
     (if dx \<le> x \<and> x < dx + w \<and> dy \<le> y \<and> y < dy + h
      then Some (sx + (x - dx), sy + (y - dy)) else None)"
  using assms axis_same[of w "x - dx"] axis_same[of h "y - dy"] by simp

lemma blit_sample_row:
  assumes "0 < w"
  shows "blit_sample (Blit img (sx, sy, w, 1) (dx, dy, w, dh)) (x, y) =
     (if dx \<le> x \<and> x < dx + w \<and> dy \<le> y \<and> y < dy + dh
      then Some (sx + (x - dx), sy) else None)"
  using assms axis_same[of w "x - dx"] axis_one[of "y - dy" dh] by simp

lemma blit_sample_column:
  assumes "0 < h"
  shows "blit_sample (Blit img (sx, sy, 1, h) (dx, dy, dw, h)) (x, y) =
     (if dx \<le> x \<and> x < dx + dw \<and> dy \<le> y \<and> y < dy + h
      then Some (sx, sy + (y - dy)) else None)"
  using assms axis_one[of "x - dx" dw] axis_same[of h "y - dy"] by simp

lemma blit_sample_pixel:
  "blit_sample (Blit img (sx, sy, 1, 1) (dx, dy, dw, dh)) (x, y) =
     (if dx \<le> x \<and> x < dx + dw \<and> dy \<le> y \<and> y < dy + dh
      then Some (sx, sy) else None)"
  using axis_one[of "x - dx" dw] axis_one[of "y - dy" dh] by simp


lemmas blit_samples = blit_sample_copy blit_sample_row blit_sample_column blit_sample_pixel

lemma clamped_padding_sample:
  assumes size: "0 < w" "0 < h" "0 < pad" and img: "iwidth img = w" "iheight img = h"
    and p: "0 \<le> x" "x < w + pad * 2" "0 \<le> y" "y < h + pad * 2"
  shows "surface_sample
           [Blit img (whole img) (pad, pad, w, h),
            Blit img (0, 0, w, 1) (pad, 0, w, pad),
            Blit img (0, h - 1, w, 1) (pad, h + pad, w, pad),
            Blit img (0, 0, 1, h) (0, pad, pad, h),
            Blit img (w - 1, 0, 1, h) (w + pad, pad, pad, h),
            Blit img (0, 0, 1, 1) (0, 0, pad, pad),
            Blit img (w - 1, 0, 1, 1) (w + pad, 0, pad, pad),
            Blit img (0, h - 1, 1, 1) (0, h + pad, pad, pad),
            Blit img (w - 1, h - 1, 1, 1) (w + pad, h + pad, pad, pad)] (x, y)
         = Some (edge_clamped img pad (x, y))"
proof -
  have xr: "x < pad \<or> (pad \<le> x \<and> x < pad + w) \<or> pad + w \<le> x" by linarith
  have yr: "y < pad \<or> (pad \<le> y \<and> y < pad + h) \<or> pad + h \<le> y" by linarith
  from xr yr show ?thesis
    using size img p
    by (elim disjE conjE;
        simp del: blit_sample.simps add: blit_samples whole_def edge_clamped_def clamp_def)
qed


lemma clamped_padding_disjoint:
  assumes size: "0 < w" "0 < h" "0 < pad"
    and p: "0 \<le> x" "x < w + pad * 2" "0 \<le> y" "y < h + pad * 2"
  shows "length (filter (\<lambda>b. blit_sample b (x, y) \<noteq> None)
           [Blit img (sx0, sy0, sw0, sh0) (pad, pad, w, h),
            Blit img (sx1, sy1, sw1, sh1) (pad, 0, w, pad),
            Blit img (sx2, sy2, sw2, sh2) (pad, h + pad, w, pad),
            Blit img (sx3, sy3, sw3, sh3) (0, pad, pad, h),
            Blit img (sx4, sy4, sw4, sh4) (w + pad, pad, pad, h),
            Blit img (sx5, sy5, sw5, sh5) (0, 0, pad, pad),
            Blit img (sx6, sy6, sw6, sh6) (w + pad, 0, pad, pad),
            Blit img (sx7, sy7, sw7, sh7) (0, h + pad, pad, pad),
            Blit img (sx8, sy8, sw8, sh8) (w + pad, h + pad, pad, pad)]) = 1"
proof -
  have xr: "x < pad \<or> (pad \<le> x \<and> x < pad + w) \<or> pad + w \<le> x" by linarith
  have yr: "y < pad \<or> (pad \<le> y \<and> y < pad + h) \<or> pad + h \<le> y" by linarith
  from xr yr show ?thesis
    using size p by (elim disjE conjE; simp)
qed

text \<open>
  The padding of an image that is drawn at its natural size (its width is at most 1920,
  so the canvas has the image's size): the offscreen canvas is the canvas plus
  \<open>pad = min (blurAmount * 3) 100\<close> on every side, each of its pixels is covered by
  exactly one of the nine draws, and it shows the source pixel nearest to it: the image in
  the centre, its outermost rows and columns in the bands, its corner pixels in the
  corners; the blurred surface is drawn at \<open>(-pad, -pad)\<close>.
\<close>

lemma padded_surface_is_edge_clamped:
  assumes cutout: "maskImage s \<noteq> None" and blur: "0 < blurValue s"
    and natural: "canvasWidth s = iwidth img" "canvasHeight s = iheight img"
    and size: "0 < iwidth img" "0 < iheight img"
    and pad: "pad = min (blurValue s * 3) 100"
    and s': "s' = draw_background img (s\<lparr>canvas := []\<rparr>)"
  shows "offWidth s' = iwidth img + pad * 2" and "offHeight s' = iheight img + pad * 2"
    and "0 \<le> x \<Longrightarrow> x < offWidth s' \<Longrightarrow> 0 \<le> y \<Longrightarrow> y < offHeight s' \<Longrightarrow>
         surface_sample (offscreen s') (x, y) = Some (edge_clamped img pad (x, y))"
    and "0 \<le> x \<Longrightarrow> x < offWidth s' \<Longrightarrow> 0 \<le> y \<Longrightarrow> y < offHeight s' \<Longrightarrow>
         length (filter (\<lambda>b. blit_sample b (x, y) \<noteq> None) (offscreen s')) = 1"
    and "canvas s' = [PaintSurface (Blur (blurValue s)) (offWidth s') (offHeight s')
                        (offscreen s') (- pad) (- pad)]"
proof -
  have p0: "0 < pad" using blur pad by simp
  have off: "offscreen s' =
       [Blit img (whole img) (pad, pad, iwidth img, iheight img),
        Blit img (0, 0, iwidth img, 1) (pad, 0, iwidth img, pad),
        Blit img (0, iheight img - 1, iwidth img, 1) (pad, iheight img + pad, iwidth img, pad),
        Blit img (0, 0, 1, iheight img) (0, pad, pad, iheight img),
        Blit img (iwidth img - 1, 0, 1, iheight img) (iwidth img + pad, pad, pad, iheight img),
        Blit img (0, 0, 1, 1) (0, 0, pad, pad),
        Blit img (iwidth img - 1, 0, 1, 1) (iwidth img + pad, 0, pad, pad),
        Blit img (0, iheight img - 1, 1, 1) (0, iheight img + pad, pad, pad),
        Blit img (iwidth img - 1, iheight img - 1, 1, 1)
          (iwidth img + pad, iheight img + pad, pad, pad)]"
    using cutout blur natural by (simp add: s' pad draw_background_def draw_def Let_def)
  show w: "offWidth s' = iwidth img + pad * 2" and h: "offHeight s' = iheight img + pad * 2"
    using cutout blur natural by (simp_all add: s' pad draw_background_def draw_def Let_def)
  show "surface_sample (offscreen s') (x, y) = Some (edge_clamped img pad (x, y))"
    if "0 \<le> x" "x < offWidth s'" "0 \<le> y" "y < offHeight s'"
    unfolding off using that size p0 unfolding w h
    by (intro clamped_padding_sample) simp_all
  show "length (filter (\<lambda>b. blit_sample b (x, y) \<noteq> None) (offscreen s')) = 1"
    if "0 \<le> x" "x < offWidth s'" "0 \<le> y" "y < offHeight s'"
    unfolding off whole_def using that size p0 unfolding w h
    by (intro clamped_padding_disjoint) simp_all
  show "canvas s' = [PaintSurface (Blur (blurValue s)) (offWidth s') (offHeight s')
                        (offscreen s') (- pad) (- pad)]"
    using cutout blur by (simp add: s' pad draw_background_def draw_def Let_def)
qed

text \<open>
  C4 at a concrete input.  A 3000 by 2000 image is shown on a 1920 by 1280 canvas; with
  the cutout loaded and the blur at 5 the padding is 15.  The centre of the offscreen
  canvas shows the whole image scaled, so its last row, at \<open>y = 1294\<close>, shows the source's
  last row 1999; but the bands are cut out of the source at the canvas's coordinates: the
  bottom band, from \<open>y = 1295\<close>, shows source row 1279 where the outermost row is 1999,
  the right band, from \<open>x = 1935\<close>, shows source column 1919 where the outermost
  column is 2999, and the top and left strips stop at column 1920 and row 1280 of the
  source.
\<close>

theorem scaled_image_padding_misses_edges:
  "map_option canvasWidth
     (run [Upload photoW, ImageLoaded 0 3000 2000, BlurInput 5, FetchResolved 0 True,
           BlobResolved 0, MaskLoaded 0] initial) = Some 1920
   \<and> map_option canvasHeight
     (run [Upload photoW, ImageLoaded 0 3000 2000, BlurInput 5, FetchResolved 0 True,
           BlobResolved 0, MaskLoaded 0] initial) = Some 1280
   \<and> map_option offscreen
     (run [Upload photoW, ImageLoaded 0 3000 2000, BlurInput 5, FetchResolved 0 True,
           BlobResolved 0, MaskLoaded 0] initial)
     = Some [Blit \<lparr>ifile = photoW, iwidth = 3000, iheight = 2000\<rparr>
               (0, 0, 3000, 2000) (15, 15, 1920, 1280),
             Blit \<lparr>ifile = photoW, iwidth = 3000, iheight = 2000\<rparr>
               (0, 0, 1920, 1) (15, 0, 1920, 15),
             Blit \<lparr>ifile = photoW, iwidth = 3000, iheight = 2000\<rparr>
               (0, 1279, 1920, 1) (15, 1295, 1920, 15),
             Blit \<lparr>ifile = photoW, iwidth = 3000, iheight = 2000\<rparr>
               (0, 0, 1, 1280) (0, 15, 15, 1280),
             Blit \<lparr>ifile = photoW, iwidth = 3000, iheight = 2000\<rparr>
               (1919, 0, 1, 1280) (1935, 15, 15, 1280),
             Blit \<lparr>ifile = photoW, iwidth = 3000, iheight = 2000\<rparr>
               (0, 0, 1, 1) (0, 0, 15, 15),
             Blit \<lparr>ifile = photoW, iwidth = 3000, iheight = 2000\<rparr>
               (1919, 0, 1, 1) (1935, 0, 15, 15),
             Blit \<lparr>ifile = photoW, iwidth = 3000, iheight = 2000\<rparr>
               (0, 1279, 1, 1) (0, 1295, 15, 15),
             Blit \<lparr>ifile = photoW, iwidth = 3000, iheight = 2000\<rparr>
               (1919, 1279, 1, 1) (1935, 1295, 15, 15)]
   \<and> top_strip \<lparr>ifile = photoW, iwidth = 3000, iheight = 2000\<rparr> = (0, 0, 3000, 1)
   \<and> bottom_strip \<lparr>ifile = photoW, iwidth = 3000, iheight = 2000\<rparr> = (0, 1999, 3000, 1)
   \<and> left_strip \<lparr>ifile = photoW, iwidth = 3000, iheight = 2000\<rparr> = (0, 0, 1, 2000)
   \<and> right_strip \<lparr>ifile = photoW, iwidth = 3000, iheight = 2000\<rparr> = (2999, 0, 1, 2000)
   \<and> map_option (offscreen_pixel (15, 1294))
     (run [Upload photoW, ImageLoaded 0 3000 2000, BlurInput 5, FetchResolved 0 True,
           BlobResolved 0, MaskLoaded 0] initial) = Some (Some (0, 1999))
   \<and> map_option (offscreen_pixel (15, 1295))
     (run [Upload photoW, ImageLoaded 0 3000 2000, BlurInput 5, FetchResolved 0 True,
           BlobResolved 0, MaskLoaded 0] initial) = Some (Some (0, 1279))
   \<and> map_option (offscreen_pixel (1934, 15))
     (run [Upload photoW, ImageLoaded 0 3000 2000, BlurInput 5, FetchResolved 0 True,
           BlobResolved 0, MaskLoaded 0] initial) = Some (Some (2999, 0))
   \<and> map_option (offscreen_pixel (1935, 15))
     (run [Upload photoW, ImageLoaded 0 3000 2000, BlurInput 5, FetchResolved 0 True,
           BlobResolved 0, MaskLoaded 0] initial) = Some (Some (1919, 0))"
  by (simp add: scenario_defs photoW_def offscreen_pixel_def top_strip_def bottom_strip_def
                left_strip_def right_strip_def floor_rat_numeral)

end
